theory Spec2Isabelle
  imports Complex_Main "HOL-Library.Multiset"
begin

section \<open>Python values used by gitgraph/main.py\<close>

text \<open>
  The exceptions the modelled code can raise. A function that can raise returns
  \<open>error + 'a\<close>, with \<open>Inl\<close> for the exception.
\<close>

datatype error = TypeError | ValueError | OverflowError | ZeroDivisionError

text \<open>
  A \<^verbatim>\<open>datetime.date\<close> is modelled by its proleptic Gregorian ordinal
  (\<^verbatim>\<open>date.toordinal()\<close>): \<^verbatim>\<open>date.min\<close> is 1 and \<^verbatim>\<open>date.max\<close> is 3652059.
  A \<^verbatim>\<open>datetime.timedelta\<close> built from whole days is modelled by its \<^verbatim>\<open>.days\<close>;
  its magnitude is at most 999999999 days. Arithmetic that leaves either range raises
  \<^verbatim>\<open>OverflowError\<close>.
\<close>

type_synonym pydate = int

type_synonym timedelta = int

definition valid_date :: "pydate \<Rightarrow> bool" where
  "valid_date d \<longleftrightarrow> 1 \<le> d \<and> d \<le> 3652059"

definition valid_delta :: "timedelta \<Rightarrow> bool" where
  "valid_delta n \<longleftrightarrow> - 999999999 \<le> n \<and> n \<le> 999999999"

definition date_diff :: "pydate \<Rightarrow> pydate \<Rightarrow> timedelta" where
  \<comment> \<open>\<^verbatim>\<open>a - b\<close> on two dates\<close>
  "date_diff a b = a - b"

definition delta_add :: "timedelta \<Rightarrow> timedelta \<Rightarrow> error + timedelta" where
  \<comment> \<open>\<^verbatim>\<open>a + b\<close> on two timedeltas\<close>
  "delta_add a b = (if valid_delta (a + b) then Inr (a + b) else Inl OverflowError)"

definition date_add :: "pydate \<Rightarrow> timedelta \<Rightarrow> error + pydate" where
  \<comment> \<open>\<^verbatim>\<open>d + n\<close>, a date plus a timedelta\<close>
  "date_add d n = (if valid_date (d + n) then Inr (d + n) else Inl OverflowError)"

definition date_sub :: "pydate \<Rightarrow> timedelta \<Rightarrow> error + pydate" where
  \<comment> \<open>\<^verbatim>\<open>d - n\<close>, a date minus a timedelta\<close>
  "date_sub d n = (if valid_date (d - n) then Inr (d - n) else Inl OverflowError)"

text \<open>
  \<^verbatim>\<open>str(n)\<close> and \<^verbatim>\<open>'{}'.format(n)\<close> for an integer: decimal digits, with a minus
  sign for a negative number.
\<close>

fun str_nat :: "nat \<Rightarrow> string" where
  "str_nat n =
     (if n < 10 then [''0123456789'' ! n]
      else str_nat (n div 10) @ [''0123456789'' ! (n mod 10)])"

definition str_int :: "int \<Rightarrow> string" where
  "str_int i = (if i < 0 then ''-'' @ str_nat (nat (- i)) else str_nat (nat i))"

text \<open>
  \<^verbatim>\<open>int(x)\<close> on a number truncates towards zero.

  \<^verbatim>\<open>a / b\<close> on two integers is true division: \<^verbatim>\<open>ZeroDivisionError\<close> for \<open>b = 0\<close>, else
  the binary64 float nearest to the exact quotient. The model keeps the exact quotient,
  a rational. For the quotients this program takes the two agree in every comparison and
  truncation made: \<^verbatim>\<open>n / 7\<close> and \<^verbatim>\<open>(len / 7 + 1) * 13\<close> for at most \<open>24 * 7\<close> days are an
  integer or at least 1/7 away from the next integer; and the limits 0.75, 0.50, 0.25
  and 0.00 are binary fractions, from which a quotient \<open>nb / m\<close> of counts below \<open>2^52\<close>
  that is not the limit itself differs by at least \<open>1 / (4 * m)\<close>, more than the rounding
  error of the division.
\<close>

definition py_int :: "rat \<Rightarrow> int" where
  "py_int x = (if 0 \<le> x then \<lfloor>x\<rfloor> else \<lceil>x\<rceil>)"

definition py_truediv :: "int \<Rightarrow> int \<Rightarrow> error + rat" where
  \<comment> \<open>\<^verbatim>\<open>a / b\<close> on two integers\<close>
  "py_truediv a b = (if b = 0 then Inl ZeroDivisionError else Inr (of_int a / of_int b))"

text \<open>
  \<^verbatim>\<open>float(s)\<close> on a decimal literal of the shape \<^verbatim>\<open>digits.digits\<close>, the shape of
  every key of the \<^verbatim>\<open>colors\<close> table.
\<close>

definition digit_val :: "char \<Rightarrow> nat" where
  "digit_val c = of_char c - 48"

definition digits_val :: "string \<Rightarrow> nat" where
  "digits_val s = foldl (\<lambda>acc c. 10 * acc + digit_val c) 0 s"

definition py_float :: "string \<Rightarrow> rat" where
  "py_float s =
     (let whole = takeWhile (\<lambda>c. c \<noteq> CHR ''.'') s;
          frac = drop 1 (dropWhile (\<lambda>c. c \<noteq> CHR ''.'') s)
      in of_nat (digits_val whole) + of_nat (digits_val frac) / 10 ^ length frac)"

text \<open>\<^verbatim>\<open>max(xs)\<close> on a list: \<^verbatim>\<open>ValueError\<close> on the empty list.\<close>

fun py_max :: "int list \<Rightarrow> error + int" where
  "py_max [] = Inl ValueError"
| "py_max (x # xs) = Inr (foldl max x xs)"

section \<open>days_range\<close>

text \<open>
  The generator is modelled by the list of the values it yields. The loop runs
  \<^verbatim>\<open>abs(delta.days) + 1\<close> times; every iteration first advances \<^verbatim>\<open>offset\<close> by one day
  and then yields \<^verbatim>\<open>start + offset\<close> when \<^verbatim>\<open>delta.days > 0\<close>, else \<^verbatim>\<open>start - offset\<close>.
\<close>

definition a_day :: timedelta where
  "a_day = 1"

fun days_range_loop :: "pydate \<Rightarrow> timedelta \<Rightarrow> nat \<Rightarrow> timedelta \<Rightarrow> error + pydate list" where
  "days_range_loop start delta 0 offset = Inr []"
| "days_range_loop start delta (Suc k) offset =
     (case delta_add offset a_day of
        Inl e \<Rightarrow> Inl e
      | Inr offset' \<Rightarrow>
          (case (if delta > 0 then date_add start offset' else date_sub start offset') of
             Inl e \<Rightarrow> Inl e
           | Inr val \<Rightarrow>
               (case days_range_loop start delta k offset' of
                  Inl e \<Rightarrow> Inl e
                | Inr vals \<Rightarrow> Inr (val # vals))))"

definition days_range :: "pydate \<Rightarrow> pydate \<Rightarrow> error + pydate list" where
  "days_range start end' =
     (let delta = date_diff end' start
      in days_range_loop start delta (nat (\<bar>delta\<bar> + 1)) (- 1))"

section \<open>compute_color\<close>

text \<open>
  The \<^verbatim>\<open>colors\<close> dictionary, in insertion order, which is the order \<^verbatim>\<open>items()\<close>
  iterates in (a dictionary keeps its insertion order from Python 3.7 on).
\<close>

definition colors :: "(string \<times> string) list" where
  "colors =
     [(''0.75'', ''1e6823''),
      (''0.50'', ''44a340''),
      (''0.25'', ''8cc665''),
      (''0.00'', ''d6e685'')]"

text \<open>The selection loop: the first limit the ratio exceeds gives the colour.\<close>

fun select_color :: "rat \<Rightarrow> (string \<times> string) list \<Rightarrow> string \<Rightarrow> string" where
  "select_color ratio [] color = color"
| "select_color ratio ((limit, col) # rest) color =
     (if ratio > py_float limit then col else select_color ratio rest color)"

definition compute_color :: "int \<Rightarrow> int \<Rightarrow> error + string" where
  "compute_color nb m =
     (case (if m > 0 then py_truediv nb m else Inr 0) of
        Inl e \<Rightarrow> Inl e
      | Inr ratio \<Rightarrow> Inr (''#'' @ select_color ratio colors ''eee''))"

section \<open>retrieve_repo_activity\<close>

record day =
  date :: pydate
  commits :: int

record activity =
  per_day_commits :: "int \<rightharpoonup> day"
  continuous_days_commits :: "day list"
  nb_commits :: int

text \<open>
  The repository walk is modelled by the list of the \<^verbatim>\<open>commit_time\<close> values in the
  order the walk yields them. \<^verbatim>\<open>datetime.datetime.fromtimestamp(t).date()\<close> depends on
  the local time zone and is the parameter \<open>fromtimestamp\<close>; \<^verbatim>\<open>datetime.date.today()\<close>
  is the parameter \<open>today\<close>. The loop state is \<^verbatim>\<open>nb_commits\<close>, \<^verbatim>\<open>per_day_commits\<close> and
  \<^verbatim>\<open>previous_date\<close> (\<open>None\<close> before the first commit). Looking up the head commit
  that starts the walk is the repository's part and is not modelled.
\<close>

type_synonym walk_state = "int \<times> (int \<rightharpoonup> day) \<times> pydate option"

definition walk_step ::
  "(int \<Rightarrow> pydate) \<Rightarrow> pydate \<Rightarrow> walk_state \<Rightarrow> int \<Rightarrow> walk_state" where
  "walk_step fromtimestamp today s commit_time =
     (case s of (nb, per_day, previous_date) \<Rightarrow>
        let commit_date = fromtimestamp commit_time;
            delta = date_diff today commit_date;
            entry = (case per_day delta of
                       None \<Rightarrow> \<lparr>date = commit_date, commits = 0\<rparr>
                     | Some d \<Rightarrow> d)
        in (nb + 1,
            per_day(delta \<mapsto> entry\<lparr>commits := commits entry + 1\<rparr>),
            Some commit_date))"

definition fill_day :: "(int \<rightharpoonup> day) \<Rightarrow> pydate \<Rightarrow> pydate \<Rightarrow> day" where
  "fill_day per_day last' d =
     (let delta = date_diff last' d
      in \<lparr>date = d,
          commits = (case per_day delta of Some e \<Rightarrow> commits e | None \<Rightarrow> 0)\<rparr>)"

text \<open>
  With no commit walked, \<^verbatim>\<open>first\<close> is \<^verbatim>\<open>None\<close> and \<^verbatim>\<open>end - start\<close> in
  \<^verbatim>\<open>days_range\<close> raises \<^verbatim>\<open>TypeError\<close>. The returned \<^verbatim>\<open>reversed(...)\<close> iterator is
  modelled by the reversed list.
\<close>

definition retrieve_repo_activity ::
  "(int \<Rightarrow> pydate) \<Rightarrow> pydate \<Rightarrow> int list \<Rightarrow> error + activity" where
  "retrieve_repo_activity fromtimestamp today commit_times =
     (case foldl (walk_step fromtimestamp today) (0, Map.empty, None) commit_times of
        (nb, per_day, previous_date) \<Rightarrow>
          (case previous_date of
             None \<Rightarrow> Inl TypeError
           | Some first \<Rightarrow>
               (case days_range first today of
                  Inl e \<Rightarrow> Inl e
                | Inr ds \<Rightarrow>
                    Inr \<lparr>per_day_commits = per_day,
                         continuous_days_commits = rev (map (fill_day per_day today) ds),
                         nb_commits = nb\<rparr>)))"

section \<open>draw_activity\<close>

text \<open>
  Output goes to streams. A \<open>world\<close> gives, for every stream, the text written to it
  so far; \<^verbatim>\<open>print(s, file=f)\<close> appends \<open>s\<close> and a newline to \<open>f\<close>, and \<^verbatim>\<open>print(s)\<close>
  appends to \<open>Stdout\<close>.
\<close>

datatype sink = Stdout | Stream nat

type_synonym world = "sink \<Rightarrow> string"

definition py_print :: "string \<Rightarrow> sink \<Rightarrow> world \<Rightarrow> world" where
  "py_print s f w = w(f := w f @ s @ ''\<newline>'')"

definition weeks :: nat where
  "weeks = 24"

definition box_height :: nat where
  "box_height = 11"

definition box_width :: nat where
  "box_width = 11"

definition spacing :: nat where
  "spacing = 2"

definition vertical_boxes :: nat where
  "vertical_boxes = 7"

definition window :: "day list \<Rightarrow> day list" where
  \<comment> \<open>\<^verbatim>\<open>list(reversed(days))[-(weeks*7):]\<close>\<close>
  "window days = (let r = rev days in drop (length r - weeks * 7) r)"

definition height :: int where
  "height = py_int (of_nat box_height * (of_nat vertical_boxes + of_nat spacing))"

definition width :: "nat \<Rightarrow> int" where
  "width len =
     py_int ((of_nat len / of_nat vertical_boxes + 1) * (of_nat box_width + of_nat spacing))"

definition header :: "nat \<Rightarrow> string" where
  \<open>header len =
     ''<?xml version="1.0" encoding="utf-8" ?>'' @
     ''<svg xmlns="http://www.w3.org/2000/svg" width="'' @ str_int (width len) @
     ''" height="'' @ str_int height @ ''">'' @
     ''<title>test</title>''\<close>

definition cell_x :: "nat \<Rightarrow> int" where
  "cell_x n = py_int (of_nat n / of_nat vertical_boxes) * int (box_width + spacing)"

definition cell_y :: "nat \<Rightarrow> int" where
  "cell_y n = int ((n mod vertical_boxes) * (box_height + spacing))"

definition commits_label :: "int \<Rightarrow> string" where
  \<comment> \<open>\<^verbatim>\<open>'{} commits'.format(day['commits'])\<close>\<close>
  "commits_label c = str_int c @ '' commits''"

definition tooltip :: "(pydate \<Rightarrow> string) \<Rightarrow> day \<Rightarrow> string" where
  \<comment> \<open>the text between \<^verbatim>\<open><title>\<close> and \<^verbatim>\<open></title>\<close> of a cell\<close>
  "tooltip isoformat d = isoformat (date d) @ ''\<newline>'' @ commits_label (commits d)"

definition cell :: "(pydate \<Rightarrow> string) \<Rightarrow> nat \<Rightarrow> nat \<Rightarrow> string \<Rightarrow> day \<Rightarrow> string" where
  \<open>cell isoformat len n color d =
     ''<g>'' @
     ''<rect x="'' @ str_int (cell_x n) @ ''" y="'' @ str_int (cell_y n) @
     ''" width="10" height="10" style="fill:'' @ color @ '';'' @
     (if int n = int len - 1 then ''stroke-width:1px;stroke:red'' else '''') @ ''" />'' @
     ''<title>'' @ tooltip isoformat d @ ''</title>'' @
     ''</g>''\<close>

text \<open>
  The loop over \<^verbatim>\<open>enumerate(days)\<close>; \<open>n\<close> is the running index. The world is
  threaded through, so the text printed before an exception stays printed.
\<close>

fun draw_cells ::
  "(pydate \<Rightarrow> string) \<Rightarrow> sink \<Rightarrow> int \<Rightarrow> nat \<Rightarrow> nat \<Rightarrow> day list \<Rightarrow> world \<Rightarrow> (error + unit) \<times> world"
  where
  "draw_cells isoformat f max_commits len n [] w = (Inr (), w)"
| "draw_cells isoformat f max_commits len n (d # rest) w =
     (case compute_color (commits d) max_commits of
        Inl e \<Rightarrow> (Inl e, w)
      | Inr color \<Rightarrow>
          draw_cells isoformat f max_commits len (Suc n) rest
            (py_print (cell isoformat len n color d) f w))"

text \<open>
  \<^verbatim>\<open>str(date)\<close> is the parameter \<open>isoformat\<close>. The header and the cells are
  printed with \<^verbatim>\<open>file=f\<close>; the last statement is \<^verbatim>\<open>print('</svg>')\<close>.
\<close>

definition draw_activity ::
  "(pydate \<Rightarrow> string) \<Rightarrow> day list \<Rightarrow> sink \<Rightarrow> world \<Rightarrow> (error + unit) \<times> world" where
  \<open>draw_activity isoformat days0 f w =
     (let days = window days0
      in case py_max (map commits days) of
           Inl e \<Rightarrow> (Inl e, w)
         | Inr max_commits \<Rightarrow>
             (case draw_cells isoformat f max_commits (length days) 0 days
                     (py_print (header (length days)) f w) of
                (Inl e, w') \<Rightarrow> (Inl e, w')
              | (Inr u, w') \<Rightarrow> (Inr (), py_print ''</svg>'' Stdout w')))\<close>

section \<open>run\<close>

text \<open>
  The part of \<^verbatim>\<open>run\<close> after the repository is opened: the activity is retrieved, its
  \<^verbatim>\<open>continuous_days_commits\<close> is read into a list and drawn on standard output.
\<close>

definition timeline :: "(int \<Rightarrow> pydate) \<Rightarrow> pydate \<Rightarrow> int list \<Rightarrow> error + day list" where
  "timeline fromtimestamp today commit_times =
     (case retrieve_repo_activity fromtimestamp today commit_times of
        Inl e \<Rightarrow> Inl e
      | Inr a \<Rightarrow> Inr (continuous_days_commits a))"

definition run ::
  "(int \<Rightarrow> pydate) \<Rightarrow> (pydate \<Rightarrow> string) \<Rightarrow> pydate \<Rightarrow> int list \<Rightarrow> world \<Rightarrow> (error + unit) \<times> world"
  where
  "run fromtimestamp isoformat today commit_times w =
     (case timeline fromtimestamp today commit_times of
        Inl e \<Rightarrow> (Inl e, w)
      | Inr data \<Rightarrow> draw_activity isoformat data Stdout w)"

section \<open>Reference definitions\<close>

text \<open>
  The specification's wording of the colour rule, to be compared with
  \<open>compute_color\<close>: the ratio is the day's count over the window maximum, taken as 0
  when the maximum is 0, and the tier is found by strict comparisons against 0.75, 0.50,
  0.25 and 0.00 in this order.
\<close>

definition spec_ratio :: "int \<Rightarrow> int \<Rightarrow> rat" where
  "spec_ratio nb m = (if m = 0 then 0 else of_int nb / of_int m)"

definition spec_tier :: "rat \<Rightarrow> string" where
  "spec_tier ratio =
     (if ratio > 3 / 4 then ''#1e6823''
      else if ratio > 1 / 2 then ''#44a340''
      else if ratio > 1 / 4 then ''#8cc665''
      else if ratio > 0 then ''#d6e685''
      else ''#eee'')"

text \<open>
  The order of the five tiers from the neutral one (0) to the darkest (4), used to
  state that one colour is lighter than another.
\<close>

definition darkness :: "string \<Rightarrow> nat" where
  "darkness c =
     (if c = ''#1e6823'' then 4
      else if c = ''#44a340'' then 3
      else if c = ''#8cc665'' then 2
      else if c = ''#d6e685'' then 1
      else 0)"

text \<open>
  The specification's DayBucket for a date: the date with the exact number of input
  commits whose calendar date it is.
\<close>

definition day_bucket :: "(int \<Rightarrow> pydate) \<Rightarrow> int list \<Rightarrow> pydate \<Rightarrow> day" where
  "day_bucket fromtimestamp commit_times d =
     \<lparr>date = d, commits = int (count_list (map fromtimestamp commit_times) d)\<rparr>"

text \<open>The count a dictionary of days holds under a key, 0 for a missing key.\<close>

definition lookup_commits :: "(int \<rightharpoonup> day) \<Rightarrow> int \<Rightarrow> int" where
  "lookup_commits per_day k = (case per_day k of Some e \<Rightarrow> commits e | None \<Rightarrow> 0)"

text \<open>
  An instance of the parameter \<open>fromtimestamp\<close>, for concrete runs: the calendar date of
  a POSIX timestamp in a time zone with no offset (1970-01-01 has the ordinal 719163).
\<close>

definition utc_date :: "int \<Rightarrow> pydate" where
  "utc_date t = t div 86400 + 719163"

text \<open>
  The specification's wording of the commit-count phrase of a tooltip: singular for the
  count 1, plural for every other count.
\<close>

definition spec_commit_phrase :: "int \<Rightarrow> string" where
  "spec_commit_phrase n = (if n = 1 then ''1 commit'' else str_int n @ '' commits'')"

text \<open>
  An instance of the parameter \<open>isoformat\<close>, for concrete runs: \<^verbatim>\<open>str(date)\<close> on the
  first three days of January 2024 (ordinals 738886 to 738888).
\<close>

definition isoformat_2024 :: "pydate \<Rightarrow> string" where
  "isoformat_2024 d =
     (if d = 738886 then ''2024-01-01''
      else if d = 738887 then ''2024-01-02''
      else ''2024-01-03'')"

section \<open>Properties of days_range\<close>

lemma days_range_loop_up:
  assumes "delta > 0"
  shows "1 \<le> start + offset + 1 \<Longrightarrow> start + offset + int k \<le> 3652059 \<Longrightarrow>
     - 999999999 \<le> offset + 1 \<Longrightarrow> offset + int k \<le> 999999999 \<Longrightarrow>
     days_range_loop start delta k offset = Inr [start + offset + 1 .. start + offset + int k]"
proof (induction k arbitrary: offset)
  case 0
  then show ?case by simp
next
  case (Suc k)
  have step: "delta_add offset a_day = Inr (offset + 1)"
    using Suc.prems by (simp add: delta_add_def a_day_def valid_delta_def)
  have val: "date_add start (offset + 1) = Inr (start + (offset + 1))"
    using Suc.prems by (simp add: date_add_def valid_date_def)
  have rest: "days_range_loop start delta k (offset + 1)
      = Inr [start + (offset + 1) + 1 .. start + (offset + 1) + int k]"
    using Suc.prems by (intro Suc.IH) simp_all
  have "[start + offset + 1 .. start + offset + int (Suc k)]
      = (start + offset + 1) # [start + (offset + 1) + 1 .. start + (offset + 1) + int k]"
    by (subst upto_rec1) (simp_all add: algebra_simps)
  then show ?case
    using assms step val rest by (simp add: algebra_simps)
qed

lemma days_range_loop_down:
  assumes "\<not> delta > 0"
  shows "1 \<le> start - offset - int k \<Longrightarrow> start - offset - 1 \<le> 3652059 \<Longrightarrow>
     - 999999999 \<le> offset + 1 \<Longrightarrow> offset + int k \<le> 999999999 \<Longrightarrow>
     days_range_loop start delta k offset
       = Inr (rev [start - offset - int k .. start - offset - 1])"
proof (induction k arbitrary: offset)
  case 0
  then show ?case by simp
next
  case (Suc k)
  have step: "delta_add offset a_day = Inr (offset + 1)"
    using Suc.prems by (simp add: delta_add_def a_day_def valid_delta_def)
  have val: "date_sub start (offset + 1) = Inr (start - (offset + 1))"
    using Suc.prems by (simp add: date_sub_def valid_date_def)
  have rest: "days_range_loop start delta k (offset + 1)
      = Inr (rev [start - (offset + 1) - int k .. start - (offset + 1) - 1])"
    using Suc.prems by (intro Suc.IH) simp_all
  have "[start - offset - int (Suc k) .. start - offset - 1]
      = [start - (offset + 1) - int k .. start - (offset + 1) - 1] @ [start - (offset + 1)]"
    by (subst upto_rec2) (simp_all add: algebra_simps)
  then show ?case
    using assms step val rest by (simp add: algebra_simps)
qed

lemma days_range_eq:
  assumes "valid_date start" "valid_date end'"
  shows "days_range start end'
    = Inr (if start \<le> end' then [start..end'] else rev [end'..start])"
proof (cases "start < end'")
  case True
  then have "days_range_loop start (end' - start) (nat (\<bar>end' - start\<bar> + 1)) (- 1)
      = Inr [start + (- 1) + 1 .. start + (- 1) + int (nat (\<bar>end' - start\<bar> + 1))]"
    using assms by (intro days_range_loop_up) (simp_all add: valid_date_def)
  with True show ?thesis by (simp add: days_range_def date_diff_def)
next
  case False
  then have "days_range_loop start (end' - start) (nat (\<bar>end' - start\<bar> + 1)) (- 1)
      = Inr (rev [start - (- 1) - int (nat (\<bar>end' - start\<bar> + 1)) .. start - (- 1) - 1])"
    using assms by (intro days_range_loop_down) (simp_all add: valid_date_def)
  with False show ?thesis by (auto simp add: days_range_def date_diff_def)
qed

text \<open>
  Claim C10. For every pair of dates, \<^verbatim>\<open>days_range(start, end)\<close> raises nothing and
  yields exactly \<^verbatim>\<open>abs((end - start).days) + 1\<close> dates: the consecutive dates from
  \<open>start\<close> up to \<open>end\<close> in ascending order when \<open>start \<le> end\<close>, and the consecutive dates
  from \<open>start\<close> down to \<open>end\<close> in descending order when \<open>start > end\<close>.
\<close>

theorem days_range_walk:
  assumes "valid_date start" and "valid_date end'"
  shows "\<exists>ds. days_range start end' = Inr ds
           \<and> length ds = nat \<bar>date_diff end' start\<bar> + 1
           \<and> ds = (if start \<le> end' then [start..end'] else rev [end'..start])"
  using days_range_eq [OF assms] by (auto simp add: date_diff_def)

theorem days_range_walk_witness:
  "valid_date 738000 \<and> valid_date 737997
     \<and> days_range 738000 737997 = Inr [738000, 737999, 737998, 737997]
     \<and> days_range 737997 738000 = Inr [737997, 737998, 737999, 738000]
     \<and> days_range 738000 738000 = Inr [738000]"
proof -
  have a: "valid_date 738000" and b: "valid_date 737997"
    by (simp_all add: valid_date_def)
  show ?thesis
    using a b days_range_walk [OF a b] days_range_walk [OF b a] days_range_walk [OF a a]
    by (simp add: upto_rec1)
qed

section \<open>Properties of compute_color\<close>

lemma digit_val_simps:
  "digit_val CHR ''0'' = 0" "digit_val CHR ''2'' = 2" "digit_val CHR ''5'' = 5"
  "digit_val CHR ''7'' = 7"
  by (simp_all add: digit_val_def)

lemma py_float_limits:
  "py_float ''0.75'' = 3 / 4" "py_float ''0.50'' = 1 / 2"
  "py_float ''0.25'' = 1 / 4" "py_float ''0.00'' = 0"
  by (simp_all add: py_float_def digits_val_def digit_val_simps)

lemma select_color_colors:
  "CHR ''#'' # select_color ratio colors ''eee'' = spec_tier ratio"
  by (simp add: colors_def py_float_limits spec_tier_def)

lemma compute_color_eq:
  assumes "0 \<le> m"
  shows "compute_color nb m = Inr (spec_tier (spec_ratio nb m))"
  using assms
  by (simp add: compute_color_def py_truediv_def spec_ratio_def select_color_colors)

lemma darkness_mono: "r \<le> s \<Longrightarrow> darkness (spec_tier r) \<le> darkness (spec_tier s)"
  by (simp add: spec_tier_def darkness_def)



text \<open>
  Claim C7, as stated: against the same window maximum, a day with more commits never
  gets a tier lighter than or equal to the tier of a day with fewer commits. This fails:
  5 and 4 commits against the maximum 5 both get the darkest tier.
\<close>

theorem compute_color_equal_tier_counterexample:
  "(4::int) < 5 \<and> compute_color 5 5 = Inr ''#1e6823'' \<and> compute_color 4 5 = Inr ''#1e6823''
     \<and> \<not> darkness ''#1e6823'' < darkness ''#1e6823''"
  by (simp add: compute_color_def py_truediv_def colors_def py_float_limits)

text \<open>
  Claim C7, amended: against the same window maximum, a day with more commits never gets
  a lighter tier than a day with fewer commits (the tier is monotonic non-decreasing in
  the ratio; equal tiers are possible).
\<close>

theorem compute_color_monotone:
  assumes "b < a" and "0 \<le> b" and "0 \<le> m"
  shows "\<exists>ca cb. compute_color a m = Inr ca \<and> compute_color b m = Inr cb
           \<and> darkness cb \<le> darkness ca"
proof -
  have "spec_ratio b m \<le> spec_ratio a m"
    using assms by (simp add: spec_ratio_def divide_right_mono)
  then show ?thesis
    using assms by (simp add: compute_color_eq darkness_mono)
qed

theorem compute_color_monotone_witness:
  "(1::int) < 3 \<and> (0::int) \<le> 1 \<and> (0::int) \<le> 3
     \<and> compute_color 3 3 = Inr ''#1e6823'' \<and> compute_color 1 3 = Inr ''#8cc665''
     \<and> darkness ''#8cc665'' \<le> darkness ''#1e6823''"
  using compute_color_monotone [of 1 3 3]
  by (simp add: compute_color_def py_truediv_def colors_def py_float_limits darkness_def)

section \<open>Properties of retrieve_repo_activity\<close>

lemma walk_step_eq:
  "walk_step f today (nb, pd, prev) c =
     (nb + 1,
      pd(today - f c \<mapsto>
          (case pd (today - f c) of None \<Rightarrow> \<lparr>date = f c, commits = 0\<rparr> | Some d \<Rightarrow> d)
          \<lparr>commits := lookup_commits pd (today - f c) + 1\<rparr>),
      Some (f c))"
  by (simp add: walk_step_def Let_def date_diff_def lookup_commits_def split: option.split)

lemma lookup_walk_step:
  "walk_step f today (nb, pd, prev) c = (nb', pd', prev') \<Longrightarrow>
     lookup_commits pd' k = lookup_commits pd k + (if f c = today - k then 1 else 0)"
  by (auto simp add: walk_step_eq lookup_commits_def)

lemma foldl_walk:
  "foldl (walk_step f today) (nb, pd, prev) cs = (nb', pd', prev') \<Longrightarrow>
     nb' = nb + int (length cs)
     \<and> prev' = (if cs = [] then prev else Some (f (last cs)))
     \<and> (\<forall>k. lookup_commits pd' k
            = lookup_commits pd k + int (count_list (map f cs) (today - k)))"
proof (induction cs arbitrary: nb pd prev)
  case Nil
  then show ?case by simp
next
  case (Cons c cs)
  obtain nb1 pd1 prev1 where s1: "walk_step f today (nb, pd, prev) c = (nb1, pd1, prev1)"
    by (cases "walk_step f today (nb, pd, prev) c") auto
  have nb1: "nb1 = nb + 1" and prev1: "prev1 = Some (f c)"
    using s1 by (simp_all add: walk_step_eq)
  have rest: "foldl (walk_step f today) (nb1, pd1, prev1) cs = (nb', pd', prev')"
    using Cons.prems s1 by simp
  note ih = Cons.IH [OF rest]
  have "\<forall>k. lookup_commits pd' k
      = lookup_commits pd k + int (count_list (map f (c # cs)) (today - k))"
    using ih lookup_walk_step [OF s1] by simp
  then show ?case
    using ih nb1 prev1 by simp
qed

lemma fill_day_eq:
  "fill_day pd today d = \<lparr>date = d, commits = lookup_commits pd (today - d)\<rparr>"
  by (simp add: fill_day_def date_diff_def lookup_commits_def)

lemma timeline_eq:
  assumes "cs \<noteq> []" and "valid_date today" and "valid_date (f (last cs))"
  shows "timeline f today cs =
     Inr (rev (map (day_bucket f cs)
       (if f (last cs) \<le> today then [f (last cs)..today] else rev [today..f (last cs)])))"
proof -
  obtain nb pd prev where
    w: "foldl (walk_step f today) (0, Map.empty, None) cs = (nb, pd, prev)"
    by (cases "foldl (walk_step f today) (0, Map.empty, None) cs") auto
  note inv = foldl_walk [OF w]
  have prev: "prev = Some (f (last cs))"
    using inv assms(1) by simp
  have look: "lookup_commits pd (today - d) = int (count_list (map f cs) d)" for d
    using inv by (simp add: lookup_commits_def)
  have fill: "fill_day pd today = day_bucket f cs"
    by (rule ext) (simp add: fill_day_eq look day_bucket_def)
  show ?thesis
    using w prev fill days_range_eq [OF assms(3) assms(2)]
    by (simp add: timeline_def retrieve_repo_activity_def)
qed

lemma date_day_bucket: "date (day_bucket f cs d) = d"
  by (simp add: day_bucket_def)

lemma int_sum_list: "int (sum_list (map g xs)) = (\<Sum>x\<leftarrow>xs. int (g x))"
  by (induction xs) simp_all

lemma sum_count_list:
  assumes "distinct xs" and "set ds \<subseteq> set xs"
  shows "(\<Sum>x\<leftarrow>xs. int (count_list ds x)) = int (length ds)"
proof -
  have "(\<Sum>x\<leftarrow>xs. count_list ds x) = (\<Sum>x\<in>set xs. count (mset ds) x)"
    using assms(1) by (simp add: sum_list_distinct_conv_sum_set count_mset)
  also have "\<dots> = (\<Sum>x\<in>set_mset (mset ds). count (mset ds) x)"
    using assms(2) by (intro sum.mono_neutral_right) (auto simp: not_in_iff)
  also have "\<dots> = size (mset ds)"
    by (simp add: size_multiset_overloaded_eq)
  finally have "(\<Sum>x\<leftarrow>xs. count_list ds x) = length ds"
    by simp
  then have "int (\<Sum>x\<leftarrow>xs. count_list ds x) = int (length ds)"
    by simp
  then show ?thesis
    by (simp only: int_sum_list)
qed

text \<open>
  Claim C9. With no commit in the walk, aggregation raises an error and returns no
  timeline, and nothing is printed: \<^verbatim>\<open>run\<close> ends with the error before
  \<^verbatim>\<open>draw_activity\<close> is called, and \<^verbatim>\<open>draw_activity\<close> itself, given an empty day list,
  raises at \<^verbatim>\<open>max\<close> before its first \<^verbatim>\<open>print\<close>.
\<close>

theorem empty_history_fails:
  "retrieve_repo_activity fromtimestamp today [] = Inl TypeError
     \<and> run fromtimestamp isoformat today [] w = (Inl TypeError, w)
     \<and> draw_activity isoformat [] f w = (Inl ValueError, w)"
  by (simp add: retrieve_repo_activity_def run_def timeline_def draw_activity_def window_def)




text \<open>
  Claim C4, as stated: every non-empty input gives exactly one bucket per date from the
  earliest commit date to the current date. This fails when the walk does not end with
  an earliest commit: with today 2024-01-03, a commit on 2024-01-01 followed by one on
  2024-01-03 gives the single bucket of 2024-01-03, and the earliest date 2024-01-01
  (ordinal 738886) has no bucket.
\<close>

theorem timeline_gap_counterexample:
  "Min (utc_date ` set [1704067200, 1704240000]) = 738886
     \<and> timeline utc_date 738888 [1704067200, 1704240000] = Inr [\<lparr>date = 738888, commits = 1\<rparr>]
     \<and> 738886 \<notin> set (map date [\<lparr>date = 738888, commits = 1\<rparr>])"
  by (simp add: timeline_eq valid_date_def utc_date_def day_bucket_def upto_rec1)

text \<open>
  Claim C4, amended: for every non-empty walk whose last commit has the earliest commit
  date, the timeline has exactly one bucket per calendar date between the earliest
  commit date and the current date inclusive, with no duplicate and no gap; every bucket
  holds the exact number of input commits of its date, so a date with no input commit
  has the count 0.
\<close>

theorem timeline_gapless:
  assumes "cs \<noteq> []" and "valid_date today"
    and "\<forall>c\<in>set cs. valid_date (fromtimestamp c)"
    and "\<forall>c\<in>set cs. fromtimestamp (last cs) \<le> fromtimestamp c"
  shows "\<exists>tl. timeline fromtimestamp today cs = Inr tl
           \<and> distinct (map date tl)
           \<and> set (map date tl)
               = {min (Min (fromtimestamp ` set cs)) today .. max (Min (fromtimestamp ` set cs)) today}
           \<and> (\<forall>b\<in>set tl. commits b = int (count_list (map fromtimestamp cs) (date b)))
           \<and> (\<forall>b\<in>set tl. date b \<notin> fromtimestamp ` set cs \<longrightarrow> commits b = 0)"
proof -
  define first where "first = fromtimestamp (last cs)"
  define ds where "ds = (if first \<le> today then [first..today] else rev [today..first])"
  define tl where "tl = rev (map (day_bucket fromtimestamp cs) ds)"
  have lastin: "last cs \<in> set cs"
    using assms(1) by simp
  have vfirst: "valid_date first"
    using assms(3) lastin by (simp add: first_def)
  have tl: "timeline fromtimestamp today cs = Inr tl"
    using timeline_eq [where f = fromtimestamp and cs = cs and today = today] assms(1,2) vfirst
    by (simp add: first_def ds_def tl_def)
  have early: "Min (fromtimestamp ` set cs) = first"
    using assms(4) lastin by (intro Min_eqI) (auto simp: first_def)
  have dates: "map date tl = rev ds"
    by (simp add: tl_def rev_map comp_def date_day_bucket)
  have "distinct ds" and "set ds = {min first today .. max first today}"
    by (auto simp: ds_def)
  then have once: "distinct (map date tl)"
    and cover: "set (map date tl) = {min first today .. max first today}"
    by (simp_all only: dates distinct_rev set_rev)
  have cnt: "\<forall>b\<in>set tl. commits b = int (count_list (map fromtimestamp cs) (date b))"
    by (auto simp: tl_def day_bucket_def)
  then have zero: "\<forall>b\<in>set tl. date b \<notin> fromtimestamp ` set cs \<longrightarrow> commits b = 0"
    by (auto simp: count_list_0_iff)
  show ?thesis
    using tl early once cover cnt zero by simp
qed

theorem timeline_gapless_witness:
  "[1704240000, 1704070000, 1704069000, 1704067200 :: int] \<noteq> []
     \<and> valid_date 738888
     \<and> list_all (\<lambda>c. valid_date (utc_date c)) [1704240000, 1704070000, 1704069000, 1704067200]
     \<and> list_all (\<lambda>c. utc_date (last [1704240000, 1704070000, 1704069000, 1704067200]) \<le> utc_date c)
          [1704240000, 1704070000, 1704069000, 1704067200]
     \<and> timeline utc_date 738888 [1704240000, 1704070000, 1704069000, 1704067200]
         = Inr [\<lparr>date = 738888, commits = 1\<rparr>, \<lparr>date = 738887, commits = 0\<rparr>,
                \<lparr>date = 738886, commits = 3\<rparr>]
     \<and> (\<exists>tl. timeline utc_date 738888 [1704240000, 1704070000, 1704069000, 1704067200] = Inr tl
            \<and> distinct (map date tl) \<and> set (map date tl) = {738886 .. 738888})"
proof -
  let ?cs = "[1704240000, 1704070000, 1704069000, 1704067200 :: int]"
  have a: "?cs \<noteq> []" by simp
  have b: "valid_date 738888" by (simp add: valid_date_def)
  have c: "\<forall>c\<in>set ?cs. valid_date (utc_date c)"
    by (simp add: valid_date_def utc_date_def)
  have d: "\<forall>c\<in>set ?cs. utc_date (last ?cs) \<le> utc_date c"
    by (simp add: utc_date_def)
  have e: "Min (utc_date ` set ?cs) = 738886"
    by (simp add: utc_date_def)
  have f: "timeline utc_date 738888 ?cs
         = Inr [\<lparr>date = 738888, commits = 1\<rparr>, \<lparr>date = 738887, commits = 0\<rparr>,
                \<lparr>date = 738886, commits = 3\<rparr>]"
    using b by (simp add: timeline_eq valid_date_def utc_date_def day_bucket_def upto_rec1)
  from timeline_gapless [OF a b c d]
  have "\<exists>tl. timeline utc_date 738888 ?cs = Inr tl
            \<and> distinct (map date tl) \<and> set (map date tl) = {738886 .. 738888}"
    unfolding e by auto
  then show ?thesis
    using a b c d f by (simp only: list_all_iff) simp
qed

text \<open>
  Claim C5, as stated: for every non-empty input the counts of the timeline sum to the
  number of input commits. This fails when a commit date lies outside the days walked:
  with today 2024-01-03, a commit dated 2024-01-05 followed by one on 2024-01-01 gives
  three buckets whose counts sum to 1, not 2.
\<close>

theorem timeline_sum_counterexample:
  "timeline utc_date 738888 [1704412800, 1704067200]
       = Inr [\<lparr>date = 738888, commits = 0\<rparr>, \<lparr>date = 738887, commits = 0\<rparr>,
              \<lparr>date = 738886, commits = 1\<rparr>]
     \<and> sum_list (map commits [\<lparr>date = 738888, commits = 0\<rparr>, \<lparr>date = 738887, commits = 0\<rparr>,
              \<lparr>date = 738886, commits = 1\<rparr>]) \<noteq> int (length [1704412800, 1704067200 :: int])"
  by (simp add: timeline_eq valid_date_def utc_date_def day_bucket_def upto_rec1)

text \<open>
  Claim C5, amended: for every non-empty walk in which every commit date lies between
  the date of the last commit of the walk and the current date (as in a walk sorted by
  time with no commit dated after today), the counts of the timeline sum to the number
  of input commits.
\<close>

theorem timeline_sum:
  assumes "cs \<noteq> []" and "valid_date today" and "valid_date (fromtimestamp (last cs))"
    and "\<forall>c\<in>set cs. min (fromtimestamp (last cs)) today \<le> fromtimestamp c
                     \<and> fromtimestamp c \<le> max (fromtimestamp (last cs)) today"
  shows "\<exists>tl. timeline fromtimestamp today cs = Inr tl
           \<and> sum_list (map commits tl) = int (length cs)"
proof -
  define first where "first = fromtimestamp (last cs)"
  define ds where "ds = (if first \<le> today then [first..today] else rev [today..first])"
  have tl: "timeline fromtimestamp today cs = Inr (rev (map (day_bucket fromtimestamp cs) ds))"
    using timeline_eq [where f = fromtimestamp and cs = cs and today = today] assms(1,2,3)
    by (simp add: first_def ds_def)
  have "distinct ds" and "set ds = {min first today .. max first today}"
    by (auto simp: ds_def)
  moreover have "set (map fromtimestamp cs) \<subseteq> {min first today .. max first today}"
    using assms(4) by (auto simp: first_def)
  ultimately have "(\<Sum>d\<leftarrow>ds. int (count_list (map fromtimestamp cs) d))
      = int (length (map fromtimestamp cs))"
    by (intro sum_count_list) simp_all
  then have "sum_list (map commits (rev (map (day_bucket fromtimestamp cs) ds))) = int (length cs)"
    by (simp add: rev_map [symmetric] comp_def day_bucket_def)
  with tl show ?thesis by simp
qed

theorem timeline_sum_witness:
  "[1704240000, 1704070000, 1704069000, 1704067200 :: int] \<noteq> []
     \<and> valid_date 738888
     \<and> valid_date (utc_date (last [1704240000, 1704070000, 1704069000, 1704067200]))
     \<and> list_all (\<lambda>c. min (utc_date (last [1704240000, 1704070000, 1704069000, 1704067200])) 738888
                        \<le> utc_date c
                    \<and> utc_date c
                        \<le> max (utc_date (last [1704240000, 1704070000, 1704069000, 1704067200])) 738888)
          [1704240000, 1704070000, 1704069000, 1704067200]
     \<and> (\<exists>tl. timeline utc_date 738888 [1704240000, 1704070000, 1704069000, 1704067200] = Inr tl
            \<and> sum_list (map commits tl) = 4)"
proof -
  let ?cs = "[1704240000, 1704070000, 1704069000, 1704067200 :: int]"
  have a: "?cs \<noteq> []" by simp
  have b: "valid_date 738888" by (simp add: valid_date_def)
  have c: "valid_date (utc_date (last ?cs))"
    by (simp add: valid_date_def utc_date_def)
  have d: "\<forall>c\<in>set ?cs. min (utc_date (last ?cs)) 738888 \<le> utc_date c
                     \<and> utc_date c \<le> max (utc_date (last ?cs)) 738888"
    by (simp add: utc_date_def)
  from timeline_sum [OF a b c d]
  have "\<exists>tl. timeline utc_date 738888 ?cs = Inr tl \<and> sum_list (map commits tl) = 4"
    by simp
  then show ?thesis
    using a b c d by (simp only: list_all_iff) simp
qed

section \<open>Properties of draw_activity\<close>

lemma compute_color_total:
  "compute_color nb m = Inr (spec_tier (if 0 < m then of_int nb / of_int m else 0))"
  by (simp add: compute_color_def py_truediv_def select_color_colors)

lemma window_eq: "window days = rev (take (min (24 * 7) (length days)) days)"
proof -
  have "length days - (length days - 24 * 7) = min (24 * 7) (length days)"
    by simp
  then show ?thesis
    by (simp add: window_def weeks_def drop_rev)
qed

lemma window_nonempty: "days \<noteq> [] \<Longrightarrow> window days \<noteq> []"
  by (simp add: window_eq)

lemma py_int_div: "py_int (of_nat n / of_nat k) = int (n div k)"
  by (simp add: py_int_def floor_divide_of_nat_eq)

lemma cell_x_eq: "cell_x n = int (n div 7) * (11 + 2)"
  using py_int_div [of n 7]
  by (simp add: cell_x_def vertical_boxes_def box_width_def spacing_def)

lemma cell_y_eq: "cell_y n = int (n mod 7) * (11 + 2)"
  by (simp add: cell_y_def vertical_boxes_def box_height_def spacing_def)

lemma draw_cells_output:
  "draw_cells isoformat f mx len n ds w =
     (Inr (),
      \<lambda>g. w g @ (if g = f
                  then concat (map (\<lambda>(k, d). cell isoformat len k (projr (compute_color (commits d) mx)) d
                                      @ ''\<newline>'') (enumerate n ds))
                  else []))"
proof (induction ds arbitrary: n w)
  case Nil
  then show ?case by (simp add: fun_eq_iff)
next
  case (Cons d ds)
  show ?case
    by (simp add: compute_color_total Cons.IH py_print_def fun_eq_iff)
qed

lemma map_enumerate_nth:
  "map (\<lambda>(k, d). g k d) (enumerate 0 xs) = map (\<lambda>k. g k (xs ! k)) [0..<length xs]"
  by (rule nth_equalityI) (simp_all add: nth_enumerate_eq)

lemma py_max_nonempty: "xs \<noteq> [] \<Longrightarrow> \<exists>m. py_max xs = Inr m"
  by (cases xs) simp_all

lemma draw_activity_output:
  assumes "days \<noteq> []" and "py_max (map commits (window days)) = Inr mx"
  shows "draw_activity isoformat days f w =
     (Inr (),
      \<lambda>g. w g
          @ (if g = f
             then header (length (window days)) @ ''\<newline>''
                  @ concat (map (\<lambda>k. cell isoformat (length (window days)) k
                                       (projr (compute_color (commits (window days ! k)) mx))
                                       (window days ! k) @ ''\<newline>'')
                              [0..<length (window days)])
             else [])
          @ (if g = Stdout then ''</svg>\<newline>'' else []))"
proof -
  have "map (\<lambda>(k, d). cell isoformat (length (window days)) k (projr (compute_color (commits d) mx)) d
                @ ''\<newline>'') (enumerate 0 (window days))
      = map (\<lambda>k. cell isoformat (length (window days)) k
                    (projr (compute_color (commits (window days ! k)) mx))
                    (window days ! k) @ ''\<newline>'')
            [0..<length (window days)]"
    by (rule map_enumerate_nth)
  then show ?thesis
    using assms(2)
    by (simp add: draw_activity_def Let_def draw_cells_output py_print_def fun_eq_iff)
qed

lemma cell_text:
  \<open>cell isoformat len k c d =
     ''<g><rect x="'' @ str_int (int (k div 7) * (11 + 2)) @
     ''" y="'' @ str_int (int (k mod 7) * (11 + 2)) @
     ''" width="10" height="10" style="fill:'' @ c @ '';'' @
     (if int k = int len - 1 then ''stroke-width:1px;stroke:red'' else '''') @
     ''" /><title>'' @ isoformat (date d) @ ''\<newline>'' @ str_int (commits d) @
     '' commits</title></g>''\<close>
  by (simp add: cell_def cell_x_eq cell_y_eq tooltip_def commits_label_def)

lemma str_int_small:
  "str_int 0 = ''0''" "str_int 1 = ''1''" "str_int 13 = ''13''" "str_int 14 = ''14''"
  "str_int 16 = ''16''" "str_int 99 = ''99''"
  by (simp_all add: str_int_def)

lemma width_eq: "width len = int ((13 * len + 91) div 7)"
proof -
  have "(of_nat len / of_nat vertical_boxes + 1) * (of_nat box_width + of_nat spacing)
      = (of_nat (13 * len + 91) / of_nat 7 :: rat)"
    by (simp add: vertical_boxes_def box_width_def spacing_def field_simps)
  then show ?thesis
    by (simp only: width_def py_int_div)
qed

lemma height_eq: "height = 99"
  by (simp add: height_def py_int_def vertical_boxes_def box_height_def spacing_def)

lemma header_small:
  \<open>header (Suc 0) = ''<?xml version="1.0" encoding="utf-8" ?><svg '' @
               ''xmlns="http://www.w3.org/2000/svg" width="14" height="99"><title>'' @
               ''test</title>''\<close>
  \<open>header (Suc (Suc 0)) = ''<?xml version="1.0" encoding="utf-8" ?><svg '' @
               ''xmlns="http://www.w3.org/2000/svg" width="16" height="99"><title>'' @
               ''test</title>''\<close>
  by (simp_all add: header_def width_eq height_eq str_int_small)

text \<open>
  Claim C8. For every day list of length \<open>n \<ge> 1\<close> given most recent first,
  \<^verbatim>\<open>draw_activity\<close> renders exactly the most recent \<open>min (24 * 7) n\<close> buckets, put back
  in ascending chronological order, and prints for the \<open>k\<close>-th of them (from 0) one cell
  at column \<open>k div 7\<close> and row \<open>k mod 7\<close>, that is at \<open>x = (k div 7) * (11 + 2)\<close> and
  \<open>y = (k mod 7) * (11 + 2)\<close>.
\<close>

theorem draw_activity_grid:
  assumes "days \<noteq> []"
  shows \<open>\<exists>mx cols.
      window days = rev (take (min (24 * 7) (length days)) days)
    \<and> py_max (map commits (window days)) = Inr mx
    \<and> map (\<lambda>d. compute_color (commits d) mx) (window days) = map Inr cols
    \<and> fst (draw_activity isoformat days f w) = Inr ()
    \<and> snd (draw_activity isoformat days f w) f =
        w f @ header (length (window days)) @ ''\<newline>'' @
        concat (map (\<lambda>k.
            ''<g><rect x="'' @ str_int (int (k div 7) * (11 + 2)) @
            ''" y="'' @ str_int (int (k mod 7) * (11 + 2)) @
            ''" width="10" height="10" style="fill:'' @ cols ! k @ '';'' @
            (if int k = int (length (window days)) - 1
             then ''stroke-width:1px;stroke:red'' else '''') @
            ''" /><title>'' @ tooltip isoformat (window days ! k) @ ''</title></g>'' @
            ''\<newline>'')
          [0..<length (window days)]) @
        (if f = Stdout then ''</svg>\<newline>'' else '''')\<close>
proof -
  obtain mx where mx: "py_max (map commits (window days)) = Inr mx"
    using py_max_nonempty [of "map commits (window days)"] window_nonempty [OF assms] by auto
  define cols where "cols = map (\<lambda>d. projr (compute_color (commits d) mx)) (window days)"
  have cols: "map (\<lambda>d. compute_color (commits d) mx) (window days) = map Inr cols"
    by (simp add: cols_def compute_color_total)
  have lines: "map (\<lambda>k. cell isoformat (length (window days)) k
                     (projr (compute_color (commits (window days ! k)) mx))
                     (window days ! k) @ ''\<newline>'') [0..<length (window days)]
      = map (\<lambda>k. cell isoformat (length (window days)) k (cols ! k) (window days ! k)
               @ ''\<newline>'') [0..<length (window days)]"
    by (rule map_cong) (simp_all add: cols_def)
  have out: "snd (draw_activity isoformat days f w) f =
        w f @ header (length (window days)) @ ''\<newline>'' @
        concat (map (\<lambda>k. cell isoformat (length (window days)) k (cols ! k) (window days ! k)
                       @ ''\<newline>'') [0..<length (window days)]) @
        (if f = Stdout then ''</svg>\<newline>'' else '''')"
    by (simp add: draw_activity_output [OF assms mx] lines)
  have res: "fst (draw_activity isoformat days f w) = Inr ()"
    by (simp add: draw_activity_output [OF assms mx])
  show ?thesis
    apply (rule exI [of _ mx])
    apply (rule exI [of _ cols])
    apply (simp only: window_eq [symmetric] mx cols res out)
    apply (simp add: cell_def cell_x_eq cell_y_eq)
    done
qed

theorem draw_activity_grid_witness:
  \<open>[\<lparr>date = 738888, commits = 1\<rparr>, \<lparr>date = 738887, commits = 0\<rparr>] \<noteq> []
     \<and> window [\<lparr>date = 738888, commits = 1\<rparr>, \<lparr>date = 738887, commits = 0\<rparr>]
         = [\<lparr>date = 738887, commits = 0\<rparr>, \<lparr>date = 738888, commits = 1\<rparr>]
     \<and> snd (draw_activity isoformat_2024
              [\<lparr>date = 738888, commits = 1\<rparr>, \<lparr>date = 738887, commits = 0\<rparr>]
              (Stream 0) (\<lambda>s. [])) (Stream 0) =
         ''<?xml version="1.0" encoding="utf-8" ?><svg '' @
         ''xmlns="http://www.w3.org/2000/svg" width="16" height="99"><title>'' @
         ''test</title>\<newline>'' @
         ''<g><rect x="0" y="0" width="10" height="10" style="fill:#eee;" />'' @
         ''<title>2024-01-02\<newline>'' @
         ''0 commits</title></g>\<newline>'' @
         ''<g><rect x="0" y="13" width="10" height="10" '' @
         ''style="fill:#1e6823;stroke-width:1px;stroke:red" /><title>'' @
         ''2024-01-03\<newline>'' @
         ''1 commits</title></g>\<newline>''\<close>
proof -
  let ?days = "[\<lparr>date = 738888, commits = 1\<rparr>, \<lparr>date = 738887, commits = 0\<rparr>]"
  have ne: "?days \<noteq> []" by simp
  have win: "window ?days = [\<lparr>date = 738887, commits = 0\<rparr>, \<lparr>date = 738888, commits = 1\<rparr>]"
    by (simp add: window_def weeks_def)
  have upt: "[0..<2] = [0, Suc 0]"
    by (simp add: upt_rec)
  from draw_activity_grid [OF ne, of isoformat_2024 "Stream 0" "\<lambda>s. []"]
  obtain mx cols where
    mx: "py_max (map commits (window ?days)) = Inr mx" and
    cols: "map (\<lambda>d. compute_color (commits d) mx) (window ?days) = map Inr cols" and
    out: \<open>snd (draw_activity isoformat_2024 ?days (Stream 0) (\<lambda>s. [])) (Stream 0) =
        (\<lambda>s. []) (Stream 0) @ header (length (window ?days)) @ ''\<newline>'' @
        concat (map (\<lambda>k.
            ''<g><rect x="'' @ str_int (int (k div 7) * (11 + 2)) @
            ''" y="'' @ str_int (int (k mod 7) * (11 + 2)) @
            ''" width="10" height="10" style="fill:'' @ cols ! k @ '';'' @
            (if int k = int (length (window ?days)) - 1
             then ''stroke-width:1px;stroke:red'' else '''') @
            ''" /><title>'' @ tooltip isoformat_2024 (window ?days ! k) @ ''</title></g>'' @
            ''\<newline>'')
          [0..<length (window ?days)]) @
        (if Stream 0 = Stdout then ''</svg>\<newline>'' else '''')\<close>
    by blast
  have mx1: "mx = 1"
    using mx by (simp add: win)
  have cols2: "cols = [''#eee'', ''#1e6823'']"
    using cols
    by (auto simp add: win mx1 compute_color_def py_truediv_def colors_def py_float_limits
        Cons_eq_map_conv)
  show ?thesis
    using ne win
    by (simp add: out win cols2 upt header_small str_int_small tooltip_def commits_label_def
        isoformat_2024_def)
qed

text \<open>
  Claim C1 says that \<^verbatim>\<open>draw_activity\<close> writes the whole document to \<open>f\<close>: the header with
  its dimensions, every cell and the closing \<^verbatim>\<open></svg>\<close>. The header and the cells are
  printed with \<^verbatim>\<open>file=f\<close>, but the last statement is \<^verbatim>\<open>print('</svg>')\<close>: for one day
  and the sink \<open>Stream 0\<close>, the sink receives the header and the cell and no footer, and
  the footer is written to standard output.
\<close>

theorem footer_printed_to_stdout:
  \<open>fst (draw_activity isoformat_2024 [\<lparr>date = 738888, commits = 1\<rparr>] (Stream 0) (\<lambda>s. []))
       = Inr ()
     \<and> snd (draw_activity isoformat_2024 [\<lparr>date = 738888, commits = 1\<rparr>] (Stream 0) (\<lambda>s. []))
         (Stream 0) =
         ''<?xml version="1.0" encoding="utf-8" ?><svg '' @
         ''xmlns="http://www.w3.org/2000/svg" width="14" height="99"><title>'' @
         ''test</title>\<newline>'' @
         ''<g><rect x="0" y="0" width="10" height="10" '' @
         ''style="fill:#1e6823;stroke-width:1px;stroke:red" /><title>'' @
         ''2024-01-03\<newline>'' @
         ''1 commits</title></g>\<newline>''
     \<and> snd (draw_activity isoformat_2024 [\<lparr>date = 738888, commits = 1\<rparr>] (Stream 0) (\<lambda>s. []))
         Stdout = ''</svg>\<newline>''\<close>
proof -
  let ?days = "[\<lparr>date = 738888, commits = 1\<rparr>]"
  have ne: "?days \<noteq> []" by simp
  have win: "window ?days = ?days"
    by (simp add: window_def weeks_def)
  have mx: "py_max (map commits (window ?days)) = Inr 1"
    by (simp add: win)
  have col: "compute_color 1 1 = Inr ''#1e6823''"
    by (simp add: compute_color_def py_truediv_def colors_def py_float_limits)
  show ?thesis
    by (simp add: draw_activity_output [OF ne mx] win col header_small cell_text str_int_small
        isoformat_2024_def)
qed

text \<open>
  Claim C2, as stated: the tooltip holds the date and a phrase that is \<^verbatim>\<open>1 commit\<close> for
  the count 1 and \<^verbatim>\<open>N commits\<close> for every other count. This fails for the count 1: the
  phrase is always built by \<^verbatim>\<open>'{} commits'.format(...)\<close>, so a day with one commit is
  labelled \<^verbatim>\<open>1 commits\<close>.
\<close>

theorem tooltip_singular_counterexample:
  \<open>snd (draw_activity isoformat_2024 [\<lparr>date = 738888, commits = 1\<rparr>] Stdout (\<lambda>s. [])) Stdout =
         ''<?xml version="1.0" encoding="utf-8" ?><svg '' @
         ''xmlns="http://www.w3.org/2000/svg" width="14" height="99"><title>'' @
         ''test</title>\<newline>'' @
         ''<g><rect x="0" y="0" width="10" height="10" '' @
         ''style="fill:#1e6823;stroke-width:1px;stroke:red" /><title>'' @
         ''2024-01-03\<newline>'' @
         ''1 commits</title></g>\<newline>'' @
         ''</svg>\<newline>''
     \<and> tooltip isoformat_2024 \<lparr>date = 738888, commits = 1\<rparr> = ''2024-01-03\<newline>1 commits''
     \<and> tooltip isoformat_2024 \<lparr>date = 738888, commits = 1\<rparr>
         \<noteq> isoformat_2024 738888 @ ''\<newline>'' @ spec_commit_phrase 1\<close>
proof -
  let ?days = "[\<lparr>date = 738888, commits = 1\<rparr>]"
  have ne: "?days \<noteq> []" by simp
  have win: "window ?days = ?days"
    by (simp add: window_def weeks_def)
  have mx: "py_max (map commits (window ?days)) = Inr 1"
    by (simp add: win)
  have col: "compute_color 1 1 = Inr ''#1e6823''"
    by (simp add: compute_color_def py_truediv_def colors_def py_float_limits)
  have doc: \<open>snd (draw_activity isoformat_2024 ?days Stdout (\<lambda>s. [])) Stdout =
         ''<?xml version="1.0" encoding="utf-8" ?><svg '' @
         ''xmlns="http://www.w3.org/2000/svg" width="14" height="99"><title>'' @
         ''test</title>\<newline>'' @
         ''<g><rect x="0" y="0" width="10" height="10" '' @
         ''style="fill:#1e6823;stroke-width:1px;stroke:red" /><title>'' @
         ''2024-01-03\<newline>'' @
         ''1 commits</title></g>\<newline>'' @
         ''</svg>\<newline>''\<close>
    by (simp add: draw_activity_output [OF ne mx] win col header_small cell_text str_int_small
        isoformat_2024_def)
  have tip: "tooltip isoformat_2024 \<lparr>date = 738888, commits = 1\<rparr> = ''2024-01-03\<newline>1 commits''"
    by (simp add: tooltip_def commits_label_def str_int_small isoformat_2024_def)
  show ?thesis
    by (simp add: doc tip spec_commit_phrase_def isoformat_2024_def)
qed

text \<open>
  Claim C2, amended: for every rendered day bucket, the printed tooltip text is the
  bucket's calendar date, a newline and the phrase \<^verbatim>\<open>N commits\<close> for every count \<open>N\<close>,
  the counts 0 and 1 included.
\<close>

theorem tooltip_text:
  assumes "days \<noteq> []"
  shows \<open>\<exists>pre.
      fst (draw_activity isoformat days f w) = Inr ()
    \<and> snd (draw_activity isoformat days f w) f =
        w f @ header (length (window days)) @ ''\<newline>'' @
        concat (map (\<lambda>k.
            pre k @ ''<title>'' @ isoformat (date (window days ! k)) @ ''\<newline>'' @
            str_int (commits (window days ! k)) @ '' commits'' @ ''</title></g>'' @
            ''\<newline>'')
          [0..<length (window days)]) @
        (if f = Stdout then ''</svg>\<newline>'' else [])\<close>
proof -
  obtain mx where mx: "py_max (map commits (window days)) = Inr mx"
    using py_max_nonempty [of "map commits (window days)"] window_nonempty [OF assms] by auto
  define pre where \<open>pre = (\<lambda>k.
     ''<g><rect x="'' @ str_int (int (k div 7) * (11 + 2)) @
     ''" y="'' @ str_int (int (k mod 7) * (11 + 2)) @
     ''" width="10" height="10" style="fill:'' @
     projr (compute_color (commits (window days ! k)) mx) @ '';'' @
     (if int k = int (length (window days)) - 1 then ''stroke-width:1px;stroke:red'' else []) @
     ''" />'')\<close>
  show ?thesis
    by (rule exI [of _ pre]) (simp add: draw_activity_output [OF assms mx] cell_text pre_def)
qed

theorem tooltip_text_witness:
  \<open>[\<lparr>date = 738888, commits = 1\<rparr>, \<lparr>date = 738887, commits = 0\<rparr>] \<noteq> []
     \<and> snd (draw_activity isoformat_2024
              [\<lparr>date = 738888, commits = 1\<rparr>, \<lparr>date = 738887, commits = 0\<rparr>]
              Stdout (\<lambda>s. [])) Stdout =
         ''<?xml version="1.0" encoding="utf-8" ?><svg '' @
         ''xmlns="http://www.w3.org/2000/svg" width="16" height="99"><title>'' @
         ''test</title>\<newline>'' @
         ''<g><rect x="0" y="0" width="10" height="10" style="fill:#eee;" />'' @
         ''<title>2024-01-02\<newline>'' @
         ''0 commits</title></g>\<newline>'' @
         ''<g><rect x="0" y="13" width="10" height="10" '' @
         ''style="fill:#1e6823;stroke-width:1px;stroke:red" /><title>'' @
         ''2024-01-03\<newline>'' @
         ''1 commits</title></g>\<newline>'' @
         ''</svg>\<newline>''\<close>
proof -
  let ?days = "[\<lparr>date = 738888, commits = 1\<rparr>, \<lparr>date = 738887, commits = 0\<rparr>]"
  have ne: "?days \<noteq> []" by simp
  have win: "window ?days = [\<lparr>date = 738887, commits = 0\<rparr>, \<lparr>date = 738888, commits = 1\<rparr>]"
    by (simp add: window_def weeks_def)
  have mx: "py_max (map commits (window ?days)) = Inr 1"
    by (simp add: win)
  have col: "compute_color 1 1 = Inr ''#1e6823''" "compute_color 0 1 = Inr ''#eee''"
    by (simp_all add: compute_color_def py_truediv_def colors_def py_float_limits)
  have upt: "[0..<2] = [0, Suc 0]"
    by (simp add: upt_rec)
  note tooltip_text [OF ne, of isoformat_2024 Stdout "\<lambda>s. []"]
  then show ?thesis
    using ne
    by (simp add: draw_activity_output [OF ne mx] win col upt header_small cell_text
        str_int_small isoformat_2024_def)
qed

end
